theory Spec2Isabelle
  imports Complex_Main "HOL-Library.Sublist"
begin

section \<open>Single-precision values\<close>

text \<open>
  The program of \<^verbatim>\<open>dewpoint.cc\<close> computes with C++ \<^verbatim>\<open>float\<close>. A value is modelled
  as a finite real number, one of the two infinities, or NaN. The operations follow
  IEEE 754 on the special values (an infinity minus itself, zero times an infinity, zero
  over zero and an infinity over an infinity are NaN; a finite non-zero value over zero
  is an infinity; every comparison with NaN is false). On finite values they are the
  exact real operations: the rounding of a result to 24 bits, overflow of a large finite
  result to an infinity, and the sign of a zero are left out, and a zero divisor counts
  as positive zero.
\<close>

datatype fl = Fin real | PInf | NInf | NaN

fun fneg :: "fl \<Rightarrow> fl" where
  "fneg (Fin a) = Fin (- a)"
| "fneg PInf = NInf"
| "fneg NInf = PInf"
| "fneg NaN = NaN"

fun fadd :: "fl \<Rightarrow> fl \<Rightarrow> fl" where
  "fadd NaN _ = NaN"
| "fadd _ NaN = NaN"
| "fadd (Fin a) (Fin b) = Fin (a + b)"
| "fadd PInf NInf = NaN"
| "fadd NInf PInf = NaN"
| "fadd PInf _ = PInf"
| "fadd NInf _ = NInf"
| "fadd (Fin a) PInf = PInf"
| "fadd (Fin a) NInf = NInf"

definition fsub :: "fl \<Rightarrow> fl \<Rightarrow> fl" where
  "fsub a b = fadd a (fneg b)"

text \<open>An infinity of the sign of \<open>s\<close>; the product or quotient of zero with it is NaN.\<close>

definition signed_inf :: "real \<Rightarrow> fl" where
  "signed_inf s = (if s = 0 then NaN else if 0 < s then PInf else NInf)"

fun fmul :: "fl \<Rightarrow> fl \<Rightarrow> fl" where
  "fmul NaN _ = NaN"
| "fmul _ NaN = NaN"
| "fmul (Fin a) (Fin b) = Fin (a * b)"
| "fmul (Fin a) PInf = signed_inf a"
| "fmul (Fin a) NInf = signed_inf (- a)"
| "fmul PInf (Fin b) = signed_inf b"
| "fmul NInf (Fin b) = signed_inf (- b)"
| "fmul PInf PInf = PInf"
| "fmul NInf NInf = PInf"
| "fmul PInf NInf = NInf"
| "fmul NInf PInf = NInf"

fun fdiv :: "fl \<Rightarrow> fl \<Rightarrow> fl" where
  "fdiv NaN _ = NaN"
| "fdiv _ NaN = NaN"
| "fdiv (Fin a) (Fin b) = (if b = 0 then signed_inf a else Fin (a / b))"
| "fdiv (Fin a) PInf = Fin 0"
| "fdiv (Fin a) NInf = Fin 0"
| "fdiv PInf (Fin b) = (if 0 \<le> b then PInf else NInf)"
| "fdiv NInf (Fin b) = (if 0 \<le> b then NInf else PInf)"
| "fdiv PInf _ = NaN"
| "fdiv NInf _ = NaN"

text \<open>\<^verbatim>\<open>a <= b\<close> on floats.\<close>

fun fle :: "fl \<Rightarrow> fl \<Rightarrow> bool" where
  "fle NaN _ = False"
| "fle _ NaN = False"
| "fle (Fin a) (Fin b) = (a \<le> b)"
| "fle NInf _ = True"
| "fle _ PInf = True"
| "fle PInf _ = False"
| "fle _ NInf = False"

text \<open>\<^verbatim>\<open>log\<close> of \<^verbatim>\<open>math.h\<close>: the natural logarithm.\<close>

fun flog :: "fl \<Rightarrow> fl" where
  "flog NaN = NaN"
| "flog PInf = PInf"
| "flog NInf = NaN"
| "flog (Fin a) = (if a < 0 then NaN else if a = 0 then NInf else Fin (ln a))"

section \<open>The dew point calculator\<close>

definition kA :: fl where
  "kA = Fin 17.625"

definition kB :: fl where
  "kB = Fin 243.04"

text \<open>
  \<^verbatim>\<open>float x = log(humidity * 0.01f) + kA * celsius / (kB + celsius);\<close>
  \<^verbatim>\<open>return kB * x / (kA - x);\<close>
\<close>

definition DewPoint :: "fl \<Rightarrow> fl \<Rightarrow> fl" where
  "DewPoint celsius humidity =
     (let x = fadd (flog (fmul humidity (Fin 0.01)))
                   (fdiv (fmul kA celsius) (fadd kB celsius))
      in fdiv (fmul kB x) (fsub kA x))"

text \<open>
  \<^verbatim>\<open>return 9.0f / 5.0f * DewPoint(5.0f / 9.0f * (fahrenheit - 32.0f), humidity) + 32.0f;\<close>
\<close>

definition DewPointFahrenheit :: "fl \<Rightarrow> fl \<Rightarrow> fl" where
  "DewPointFahrenheit fahrenheit humidity =
     fadd (fmul (fdiv (Fin 9) (Fin 5))
                (DewPoint (fmul (fdiv (Fin 5) (Fin 9)) (fsub fahrenheit (Fin 32))) humidity))
          (Fin 32)"

section \<open>The locale inspector\<close>

text \<open>
  \<^verbatim>\<open>std::string_view::find(char)\<close> stored in an \<^verbatim>\<open>int\<close>: the index of the first
  occurrence, or \<^verbatim>\<open>npos\<close>, which the conversion to \<^verbatim>\<open>int\<close> makes \<open>-1\<close>. A
  locale name is far shorter than \<open>2 ^ 31\<close> characters, so an index is its own
  conversion.
\<close>

definition npos :: int where
  "npos = - 1"

fun find_char :: "string \<Rightarrow> char \<Rightarrow> int" where
  "find_char [] c = npos"
| "find_char (x # xs) c =
     (if x = c then 0
      else if find_char xs c = npos then npos
      else find_char xs c + 1)"

text \<open>
  \<^verbatim>\<open>substr(pos, n)\<close>, called with \<open>pos \<le> size\<close> only (beyond it the library
  throws): the characters from \<open>pos\<close> on, at most \<open>n\<close> of them.
\<close>

definition substr :: "string \<Rightarrow> nat \<Rightarrow> nat \<Rightarrow> string" where
  "substr s pos n = take n (drop pos s)"

definition LocaleUsesFahrenheit :: "string \<Rightarrow> bool" where
  "LocaleUsesFahrenheit locale =
     (let underscore = find_char locale CHR ''_'';
          dot = find_char locale CHR ''.''
      in if underscore = npos \<or> dot = npos \<or> dot \<le> underscore then False
         else (let territory = substr locale (nat (underscore + 1)) (nat (dot - underscore - 1))
               in territory = ''US'' \<or> territory = ''LR'' \<or> territory = ''FM'' \<or>
                  territory = ''KY'' \<or> territory = ''MH'' \<or> territory = ''PW''))"

section \<open>Reading a float\<close>

text \<open>
  \<^verbatim>\<open>strtof\<close> belongs to the C library. It is modelled from the C standard
  (7.22.1.3) and the GNU implementation: white space is skipped, then an optional sign,
  then the longest prefix that is a decimal number, a hexadecimal number, an infinity or
  a NaN. The result is the value and the rest of the string, where \<^verbatim>\<open>end\<close> points;
  when nothing converts, the value is zero and \<^verbatim>\<open>end\<close> is the start of the string.
  The radix character \<open>dp\<close> is the one of the numeric locale. The value of a number
  is the exact one: as for the operations, the rounding to a float and the overflow to
  an infinity are left out.
\<close>

definition isspace :: "char \<Rightarrow> bool" where
  "isspace c = (c \<in> set [CHR '' '', CHR 0x09, CHR 0x0A, CHR 0x0B, CHR 0x0C, CHR 0x0D])"

definition isdigit :: "char \<Rightarrow> bool" where
  "isdigit c = (c \<in> set ''0123456789'')"

definition isxdigit :: "char \<Rightarrow> bool" where
  "isxdigit c = (c \<in> set ''0123456789abcdefABCDEF'')"

definition isalpha :: "char \<Rightarrow> bool" where
  "isalpha c = (c \<in> set ''abcdefghijklmnopqrstuvwxyzABCDEFGHIJKLMNOPQRSTUVWXYZ'')"

definition digit_value :: "char \<Rightarrow> nat" where
  "digit_value c =
     (if isdigit c then of_char c - 48
      else if c \<in> set ''abcdef'' then of_char c - 87
      else of_char c - 55)"

definition number_of :: "nat \<Rightarrow> string \<Rightarrow> nat" where
  "number_of base ds = foldl (\<lambda>acc d. acc * base + digit_value d) 0 ds"

definition scale :: "real \<Rightarrow> real \<Rightarrow> int \<Rightarrow> real" where
  "scale base m e = (if 0 \<le> e then m * base ^ nat e else m / base ^ nat (- e))"

text \<open>An optional sign: whether it is a minus, and what follows it.\<close>

definition sign_part :: "string \<Rightarrow> bool \<times> string" where
  "sign_part s =
     (case s of
        [] \<Rightarrow> (False, s)
      | c # r \<Rightarrow>
          if c = CHR ''-'' then (True, r)
          else if c = CHR ''+'' then (False, r)
          else (False, s))"

text \<open>
  Digits with at most one radix character among them, and at least one digit: the
  digits before the radix character, those after it, and the rest.
\<close>

definition mantissa :: "(char \<Rightarrow> bool) \<Rightarrow> char \<Rightarrow> string \<Rightarrow> (string \<times> string \<times> string) option" where
  "mantissa isd dp s =
     (let ip = takeWhile isd s;
          r = dropWhile isd s;
          fp = (case r of [] \<Rightarrow> [] | c # t \<Rightarrow> if c = dp then takeWhile isd t else []);
          r' = (case r of [] \<Rightarrow> r | c # t \<Rightarrow> if c = dp then dropWhile isd t else r)
      in if ip = [] \<and> fp = [] then None else Some (ip, fp, r'))"

text \<open>
  An exponent: one of the letters \<open>marks\<close>, an optional sign and at least one decimal
  digit. A letter with no digit after it is not part of the number.
\<close>

definition exponent_part :: "string \<Rightarrow> string \<Rightarrow> int \<times> string" where
  "exponent_part marks s =
     (case s of
        [] \<Rightarrow> (0, s)
      | c # r \<Rightarrow>
          if c \<in> set marks \<and> takeWhile isdigit (snd (sign_part r)) \<noteq> []
          then (let n = int (number_of 10 (takeWhile isdigit (snd (sign_part r))))
                in (if fst (sign_part r) then - n else n,
                    dropWhile isdigit (snd (sign_part r))))
          else (0, s))"

definition decimal_float :: "char \<Rightarrow> string \<Rightarrow> (fl \<times> string) option" where
  "decimal_float dp s =
     (case mantissa isdigit dp s of
        None \<Rightarrow> None
      | Some (ip, fp, r) \<Rightarrow>
          Some (Fin (scale 10 (real (number_of 10 (ip @ fp)))
                       (fst (exponent_part ''eE'' r) - int (length fp))),
                snd (exponent_part ''eE'' r)))"

definition hex_float :: "char \<Rightarrow> string \<Rightarrow> (fl \<times> string) option" where
  "hex_float dp s =
     (case s of
        z # x # t \<Rightarrow>
          if z = CHR ''0'' \<and> (x = CHR ''x'' \<or> x = CHR ''X'')
          then (case mantissa isxdigit dp t of
                  None \<Rightarrow> None
                | Some (ip, fp, r) \<Rightarrow>
                    Some (Fin (scale 2 (real (number_of 16 (ip @ fp)))
                                 (fst (exponent_part ''pP'' r) - 4 * int (length fp))),
                          snd (exponent_part ''pP'' r)))
          else None
      | _ \<Rightarrow> None)"

text \<open>Whether \<open>s\<close> starts with the word, whose letters are given in both cases.\<close>

fun ci_prefix :: "(char \<times> char) list \<Rightarrow> string \<Rightarrow> bool" where
  "ci_prefix [] s = True"
| "ci_prefix (p # ps) [] = False"
| "ci_prefix (p # ps) (c # cs) = ((c = fst p \<or> c = snd p) \<and> ci_prefix ps cs)"

definition infinity :: "string \<Rightarrow> (fl \<times> string) option" where
  "infinity s =
     (if ci_prefix (zip ''infinity'' ''INFINITY'') s then Some (PInf, drop 8 s)
      else if ci_prefix (zip ''inf'' ''INF'') s then Some (PInf, drop 3 s)
      else None)"

text \<open>
  \<^verbatim>\<open>nan\<close>, or \<^verbatim>\<open>nan(\<close>\<open>\<dots>\<close>\<^verbatim>\<open>)\<close> around letters, digits and underscores; an
  unclosed parenthesis is not part of the number.
\<close>

definition not_a_number :: "string \<Rightarrow> (fl \<times> string) option" where
  "not_a_number s =
     (if ci_prefix (zip ''nan'' ''NAN'') s
      then (case drop 3 s of
              p # t \<Rightarrow>
                if p = CHR ''(''
                then (case dropWhile (\<lambda>c. isalpha c \<or> isdigit c \<or> c = CHR ''_'') t of
                        q # u \<Rightarrow> if q = CHR '')'' then Some (NaN, u) else Some (NaN, drop 3 s)
                      | [] \<Rightarrow> Some (NaN, drop 3 s))
                else Some (NaN, drop 3 s)
            | [] \<Rightarrow> Some (NaN, drop 3 s))
      else None)"

definition magnitude :: "char \<Rightarrow> string \<Rightarrow> (fl \<times> string) option" where
  "magnitude dp s =
     (case hex_float dp s of
        Some p \<Rightarrow> Some p
      | None \<Rightarrow>
          (case decimal_float dp s of
             Some p \<Rightarrow> Some p
           | None \<Rightarrow>
               (case infinity s of
                  Some p \<Rightarrow> Some p
                | None \<Rightarrow> not_a_number s)))"

definition strtof :: "char \<Rightarrow> string \<Rightarrow> fl \<times> string" where
  "strtof dp s =
     (case magnitude dp (snd (sign_part (dropWhile isspace s))) of
        None \<Rightarrow> (Fin 0, s)
      | Some (v, rest) \<Rightarrow>
          (if fst (sign_part (dropWhile isspace s)) then fneg v else v, rest))"

text \<open>
  \<^verbatim>\<open>float f = strtof(s, &end); if (*end != '\0') return std::nullopt; return f;\<close>
  A token is a C string, so it holds no NUL, and \<^verbatim>\<open>*end\<close> is NUL exactly when the
  rest is empty.
\<close>

definition ReadFloat :: "char \<Rightarrow> string \<Rightarrow> fl option" where
  "ReadFloat dp s =
     (case strtof dp s of (f, end) \<Rightarrow> if end \<noteq> [] then None else Some f)"

section \<open>Option parsing\<close>

text \<open>
  \<^verbatim>\<open>getopt_long\<close> belongs to the C library. It is modelled from its manual page and
  the GNU implementation, for options that take no argument (the program has no other).
  Its state between two calls: the program name; the option elements taken so far; the
  non-option elements passed over; the rest of the cluster of short options being read;
  the elements not looked at yet. GNU \<^verbatim>\<open>getopt_long\<close> permutes \<^verbatim>\<open>argv\<close> as it
  scans, so that when it returns \<open>-1\<close> the options stand first, in their order, then
  the non-options passed over, then the elements not looked at, and \<^verbatim>\<open>optind\<close> is the
  index of the first element after the options.
\<close>

record getopt_data =
  program :: string
  scanned :: "string list"
  skipped :: "string list"
  nextchar :: string
  pending :: "string list"

definition getopt_init :: "string list \<Rightarrow> getopt_data" where
  "getopt_init argv =
     \<lparr>program = (case argv of [] \<Rightarrow> [] | a # _ \<Rightarrow> a), scanned = [], skipped = [],
      nextchar = [], pending = tl argv\<rparr>"

definition argv_of :: "getopt_data \<Rightarrow> string list" where
  "argv_of d = program d # scanned d @ skipped d @ pending d"

definition optind :: "getopt_data \<Rightarrow> nat" where
  "optind d = 1 + length (scanned d)"

text \<open>An element that is no option: it does not start with \<^verbatim>\<open>-\<close>, or it is \<^verbatim>\<open>-\<close> alone.\<close>

definition nonoption :: "string \<Rightarrow> bool" where
  "nonoption a = (case a of [] \<Rightarrow> True | c # r \<Rightarrow> if c = CHR ''-'' then r = [] else True)"

definition quote :: string where
  "quote = [CHR 0x27]"

text \<open>One character of a cluster of short options; \<open>63\<close> is \<^verbatim>\<open>'?'\<close>.\<close>

definition short_option :: "string \<Rightarrow> char \<Rightarrow> getopt_data \<Rightarrow> int \<times> string \<times> getopt_data" where
  "short_option optstring c d =
     (if c \<in> set optstring \<and> c \<noteq> CHR '':'' \<and> c \<noteq> CHR '';'' then (of_char c, [], d)
      else (63, program d @ '': invalid option -- '' @ quote @ [c] @ quote @ ''\<newline>'', d))"

text \<open>
  A long option, \<open>arg\<close> being the element without its \<^verbatim>\<open>--\<close>. The name ends at the
  first \<^verbatim>\<open>=\<close>. An exact match wins; otherwise the name may abbreviate an entry of the
  table, and several entries only when they have the same value.
\<close>

definition long_option :: "(string \<times> int) list \<Rightarrow> string \<Rightarrow> getopt_data \<Rightarrow> int \<times> string \<times> getopt_data" where
  "long_option longopts arg d =
     (let name = takeWhile (\<lambda>c. c \<noteq> CHR ''='') arg;
          exact = filter (\<lambda>p. fst p = name) longopts;
          abbrev = filter (\<lambda>p. take (length name) (fst p) = name) longopts;
          found = (if exact \<noteq> [] then exact else abbrev)
      in case found of
           [] \<Rightarrow>
             (63, program d @ '': unrecognized option '' @ quote @ ''--'' @ arg @ quote @ ''\<newline>'', d)
         | p # ps \<Rightarrow>
             if exact = [] \<and> filter (\<lambda>q. snd q \<noteq> snd p) ps \<noteq> []
             then (63, program d @ '': option '' @ quote @ ''--'' @ arg @ quote @
                       '' is ambiguous; possibilities:'' @
                       concat (map (\<lambda>q. '' '' @ quote @ ''--'' @ fst q @ quote)
                                   (p # filter (\<lambda>q. snd q \<noteq> snd p) ps)) @ ''\<newline>'', d)
             else if name \<noteq> arg
             then (63, program d @ '': option '' @ quote @ ''--'' @ fst p @ quote @
                       '' doesn'' @ quote @ ''t allow an argument\<newline>'', d)
             else (snd p, [], d))"

text \<open>
  One call: the value returned, what it writes to standard error, and the new state.
  With \<open>posix\<close> (the environment sets \<^verbatim>\<open>POSIXLY_CORRECT\<close>) the scan stops at the
  first non-option; otherwise non-options are passed over.
\<close>

function getopt_long :: "bool \<Rightarrow> string \<Rightarrow> (string \<times> int) list \<Rightarrow> getopt_data \<Rightarrow> int \<times> string \<times> getopt_data" where
  "getopt_long posix optstring longopts d =
     (case nextchar d of
        c # cs \<Rightarrow> short_option optstring c (d\<lparr>nextchar := cs\<rparr>)
      | [] \<Rightarrow>
          (case pending d of
             [] \<Rightarrow> (- 1, [], d)
           | a # rest \<Rightarrow>
               if nonoption a
               then (if posix then (- 1, [], d)
                     else getopt_long posix optstring longopts
                            (d\<lparr>skipped := skipped d @ [a], pending := rest\<rparr>))
               else if a = ''--''
               then (- 1, [], d\<lparr>scanned := scanned d @ [a], pending := rest\<rparr>)
               else if hd (tl a) = CHR ''-''
               then long_option longopts (drop 2 a)
                      (d\<lparr>scanned := scanned d @ [a], pending := rest\<rparr>)
               else short_option optstring (hd (tl a))
                      (d\<lparr>scanned := scanned d @ [a], pending := rest, nextchar := tl (tl a)\<rparr>)))"
  by pat_completeness auto
termination
  by (relation "measure (\<lambda>(posix, optstring, longopts, d). length (pending d))") auto

section \<open>The program\<close>

definition kShortUsage :: string where
  "kShortUsage = ''Usage: dewpoint TEMPERATURE HUMIDITY\<newline>''"

definition kHelp :: string where
  "kHelp =
     ''Compute the dew point from a given temperature and humidity. Temperatures are\<newline>'' @
     ''interpreted by default according to the current locale; humidity is interpreted\<newline>'' @
     ''as a percentage.\<newline>'' @
     ''\<newline>'' @
     ''Options:\<newline>'' @
     ''      -c, --celsius, --centigrade\<newline>'' @
     ''                              use the Celsius temperature scale\<newline>'' @
     ''      -f, --fahrenheit        use the Fahrenheit temperature scale\<newline>'' @
     ''      --help                  display this help and exit\<newline>''"

definition kAskForHelp :: string where
  "kAskForHelp = ''Try '' @ quote @ ''dewpoint --help'' @ quote @ '' for more information\<newline>''"

definition kHelpLongOption :: int where
  "kHelpLongOption = 128"

definition long_options :: "(string \<times> int) list" where
  "long_options =
     [(''celsius'', of_char CHR ''c''),
      (''centigrade'', of_char CHR ''c''),
      (''fahrenheit'', of_char CHR ''f''),
      (''help'', kHelpLongOption)]"

text \<open>
  What the program reads of its environment: the name that
  \<^verbatim>\<open>setlocale(LC_MEASUREMENT, "")\<close> returns (or a null pointer), the radix character of
  the numeric locale, and whether \<^verbatim>\<open>POSIXLY_CORRECT\<close> is set.
\<close>

record environment =
  lc_measurement :: "string option"
  decimal_point :: char
  posixly_correct :: bool

text \<open>
  How a run ends: with its standard output, its standard error and its exit status; or
  in the conversion to \<^verbatim>\<open>int\<close> of a value no \<^verbatim>\<open>int\<close> holds, which C++ leaves
  undefined.
\<close>

datatype outcome = Exit string string int | Undefined_cast fl

definition help_text :: "string \<Rightarrow> bool \<Rightarrow> string" where
  "help_text measurement_locale locale_uses_fahrenheit =
     kShortUsage @ kHelp @ ''\<newline>Your current measurement locale is '' @ measurement_locale @
     '', which uses '' @ (if locale_uses_fahrenheit then ''Fahrenheit'' else ''Celsius'') @
     '' by\<newline>default.\<newline>''"

text \<open>What is left of a call of \<^verbatim>\<open>getopt_long\<close> to read.\<close>

definition unread :: "getopt_data \<Rightarrow> nat" where
  "unread d = length (nextchar d) + length (concat (pending d)) + length (pending d)"

lemma short_option_state: "short_option optstring c d = (r, msg, d') \<Longrightarrow> d' = d"
  by (auto simp: short_option_def split: if_splits)

lemma long_option_state: "long_option longopts arg d = (r, msg, d') \<Longrightarrow> d' = d"
  by (auto simp: long_option_def Let_def split: if_splits list.splits)

lemma getopt_long_unread:
  "getopt_long posix optstring longopts d = (r, msg, d') \<Longrightarrow> r \<noteq> - 1 \<Longrightarrow> unread d' < unread d"
proof (induction posix optstring longopts d rule: getopt_long.induct)
  case (1 posix optstring longopts d)
  show ?case
  proof (cases "nextchar d")
    case (Cons c cs)
    with "1.prems" have "d' = d\<lparr>nextchar := cs\<rparr>"
      by (auto dest: short_option_state)
    with Cons show ?thesis by (simp add: unread_def)
  next
    case Nil
    note nc = this
    show ?thesis
    proof (cases "pending d")
      case Nil
      with nc "1.prems" show ?thesis by simp
    next
      case (Cons a rest)
      note pd = this
      show ?thesis
      proof (cases "nonoption a")
        case True
        with nc pd "1.prems" have np: "\<not> posix" by (auto split: if_splits)
        with nc pd True "1.prems"
        have "getopt_long posix optstring longopts (d\<lparr>skipped := skipped d @ [a], pending := rest\<rparr>) = (r, msg, d')"
          by simp
        from "1.IH" [OF nc pd True np this "1.prems"(2)]
        show ?thesis using pd nc by (simp add: unread_def)
      next
        case False
        then obtain c t where a: "a = CHR ''-'' # c # t"
          by (cases a; cases "tl a") (auto simp: nonoption_def split: if_splits)
        show ?thesis
        proof (cases "a = ''--''")
          case True
          with nc pd False "1.prems" show ?thesis by simp
        next
          case nd: False
          show ?thesis
          proof (cases "c = CHR ''-''")
            case True
            with nc pd False nd a "1.prems"
            have "d' = d\<lparr>scanned := scanned d @ [a], pending := rest\<rparr>"
              by (auto dest: long_option_state)
            with pd nc show ?thesis by (simp add: unread_def)
          next
            case nl: False
            with nc pd False nd a "1.prems"
            have "d' = d\<lparr>scanned := scanned d @ [a], pending := rest, nextchar := t\<rparr>"
              by (auto dest: short_option_state)
            with pd nc a show ?thesis by (simp add: unread_def)
          qed
        qed
      qed
    qed
  qed
qed

text \<open>The loop of \<^verbatim>\<open>main\<close> around \<^verbatim>\<open>getopt_long\<close>; \<open>99\<close> is \<^verbatim>\<open>'c'\<close> and \<open>102\<close> is \<^verbatim>\<open>'f'\<close>.\<close>

function option_loop :: "bool \<Rightarrow> string \<Rightarrow> bool \<Rightarrow> getopt_data \<Rightarrow> bool \<Rightarrow> outcome + bool \<times> getopt_data" where
  "option_loop posix measurement_locale locale_uses_fahrenheit d use_fahrenheit =
     (let r = getopt_long posix ''cf'' long_options d;
          c = fst r; msg = fst (snd r); d' = snd (snd r)
      in if c = - 1 then Inr (use_fahrenheit, d')
         else if c = of_char CHR ''c''
         then option_loop posix measurement_locale locale_uses_fahrenheit d' False
         else if c = of_char CHR ''f''
         then option_loop posix measurement_locale locale_uses_fahrenheit d' True
         else if c = kHelpLongOption
         then Inl (Exit (help_text measurement_locale locale_uses_fahrenheit) [] 0)
         else if c = of_char CHR ''?''
         then Inl (Exit [] (msg @ kAskForHelp) 1)
         else Inl (Exit [] (msg @ ''Internal error; please report.\<newline>'') 1))"
  by pat_completeness auto
termination
proof (relation "measure (\<lambda>(posix, ml, luf, d, uf). unread d)")
  show "wf (measure (\<lambda>(posix, ml, luf, d, uf). unread d))" by simp
next
  fix posix :: bool and measurement_locale :: string and locale_uses_fahrenheit :: bool
    and d :: getopt_data and use_fahrenheit :: bool and r c msg d'
  assume "r = getopt_long posix ''cf'' long_options d" "c = fst r" "d' = snd (snd r)" "c \<noteq> - 1"
  then have "unread d' < unread d"
    using getopt_long_unread [of posix "''cf''" long_options d c "fst (snd r)" d'] by simp
  then show "((posix, measurement_locale, locale_uses_fahrenheit, d', False),
              (posix, measurement_locale, locale_uses_fahrenheit, d, use_fahrenheit))
             \<in> measure (\<lambda>(posix, ml, luf, d, uf). unread d)"
    by simp
next
  fix posix :: bool and measurement_locale :: string and locale_uses_fahrenheit :: bool
    and d :: getopt_data and use_fahrenheit :: bool and r c msg d'
  assume "r = getopt_long posix ''cf'' long_options d" "c = fst r" "d' = snd (snd r)" "c \<noteq> - 1"
  then have "unread d' < unread d"
    using getopt_long_unread [of posix "''cf''" long_options d c "fst (snd r)" d'] by simp
  then show "((posix, measurement_locale, locale_uses_fahrenheit, d', True),
              (posix, measurement_locale, locale_uses_fahrenheit, d, use_fahrenheit))
             \<in> measure (\<lambda>(posix, ml, luf, d, uf). unread d)"
    by simp
qed

text \<open>
  \<^verbatim>\<open>rintf\<close>: the nearest integer, a tie going to the even one (the rounding mode is the
  default one; the program never changes it).
\<close>

definition rint :: "real \<Rightarrow> int" where
  "rint x =
     (if x - of_int \<lfloor>x\<rfloor> < 1 / 2 then \<lfloor>x\<rfloor>
      else if 1 / 2 < x - of_int \<lfloor>x\<rfloor> then \<lfloor>x\<rfloor> + 1
      else if even \<lfloor>x\<rfloor> then \<lfloor>x\<rfloor>
      else \<lfloor>x\<rfloor> + 1)"

fun rintf :: "fl \<Rightarrow> fl" where
  "rintf (Fin a) = Fin (of_int (rint a))"
| "rintf v = v"

text \<open>
  \<^verbatim>\<open>static_cast<int>\<close> of a float: the value without its fraction, when a 32-bit
  \<^verbatim>\<open>int\<close> holds it; otherwise the behaviour is undefined (\<open>None\<close>).
\<close>

fun static_cast_int :: "fl \<Rightarrow> int option" where
  "static_cast_int (Fin a) =
     (let t = (if 0 \<le> a then \<lfloor>a\<rfloor> else \<lceil>a\<rceil>)
      in if - (2 ^ 31) \<le> t \<and> t < 2 ^ 31 then Some t else None)"
| "static_cast_int v = None"

text \<open>\<^verbatim>\<open>std::cout << n\<close> for an \<^verbatim>\<open>int\<close>: its decimal digits, after a minus sign if negative.\<close>

fun show_nat :: "nat \<Rightarrow> string" where
  "show_nat n =
     (if n < 10 then [''0123456789'' ! n]
      else show_nat (n div 10) @ [''0123456789'' ! (n mod 10)])"

definition show_int :: "int \<Rightarrow> string" where
  "show_int i = (if i < 0 then CHR ''-'' # show_nat (nat (- i)) else show_nat (nat i))"

definition dquote :: string where
  "dquote = [CHR 0x22]"

text \<open>
  \<^verbatim>\<open>main\<close> up to the call of the calculator (lines 96 to 158): either the run ends, or
  the unit, the temperature and the humidity are known. After the test of
  \<^verbatim>\<open>optind\<close>, \<^verbatim>\<open>argc\<close> is at least 3, so \<^verbatim>\<open>argv[1]\<close> and \<^verbatim>\<open>argv[2]\<close> exist.
\<close>

definition read_arguments :: "environment \<Rightarrow> string list \<Rightarrow> outcome + bool \<times> fl \<times> fl" where
  "read_arguments env argv =
     (let measurement_locale = (case lc_measurement env of None \<Rightarrow> ''C'' | Some s \<Rightarrow> s);
          locale_uses_fahrenheit = LocaleUsesFahrenheit measurement_locale
      in case option_loop (posixly_correct env) measurement_locale locale_uses_fahrenheit
                (getopt_init argv) locale_uses_fahrenheit of
           Inl out \<Rightarrow> Inl out
         | Inr (use_fahrenheit, d) \<Rightarrow>
             if int (optind d) \<noteq> int (length argv) - 2
             then Inl (Exit [] (kShortUsage @ kAskForHelp) 1)
             else (let temperature = ReadFloat (decimal_point env) (argv_of d ! 1)
                   in if temperature = None
                      then Inl (Exit [] (''dewpoint: invalid temperature '' @ dquote @
                                         argv_of d ! 1 @ dquote @ ''\<newline>'' @ kAskForHelp) 1)
                      else (let humidity = ReadFloat (decimal_point env) (argv_of d ! 2)
                            in if humidity = None \<or> fle (the humidity) (Fin 0)
                               then Inl (Exit [] (''dewpoint: invalid humidity '' @ dquote @
                                                  argv_of d ! 1 @ dquote @ ''\<newline>'' @ kAskForHelp) 1)
                               else Inr (use_fahrenheit, the temperature, the humidity))))"

text \<open>
  The rest of \<^verbatim>\<open>main\<close> (lines 160 to 163): the calculator, the rounding, the output;
  leaving \<^verbatim>\<open>main\<close> at its end is exit status 0.
\<close>

definition main :: "environment \<Rightarrow> string list \<Rightarrow> outcome" where
  "main env argv =
     (case read_arguments env argv of
        Inl out \<Rightarrow> out
      | Inr (use_fahrenheit, temperature, humidity) \<Rightarrow>
          (let dew_point = (if use_fahrenheit then DewPointFahrenheit temperature humidity
                            else DewPoint temperature humidity)
           in case static_cast_int (rintf dew_point) of
                None \<Rightarrow> Undefined_cast (rintf dew_point)
              | Some n \<Rightarrow> Exit (show_int n @ ''\<newline>'') [] 0))"

section \<open>The specification's formulas, fields and inputs\<close>

text \<open>
  The Magnus formula over the reals: \<open>x = ln (H / 100) + A * T / (B + T)\<close> and the dew
  point \<open>B * x / (A - x)\<close>, with \<open>A = 17.625\<close> and \<open>B = 243.04\<close>.
\<close>

definition magnus_x :: "real \<Rightarrow> real \<Rightarrow> real" where
  "magnus_x T H = ln (H / 100) + 17.625 * T / (243.04 + T)"

definition magnus_dew_point :: "real \<Rightarrow> real \<Rightarrow> real" where
  "magnus_dew_point T H = 243.04 * magnus_x T H / (17.625 - magnus_x T H)"



text \<open>
  The territory field: what stands strictly between the first \<^verbatim>\<open>_\<close> and the first
  \<^verbatim>\<open>.\<close> that follows that \<^verbatim>\<open>_\<close>; none when there is no \<^verbatim>\<open>_\<close>, or no \<^verbatim>\<open>.\<close>
  after it.
\<close>

definition territory_field :: "string \<Rightarrow> string option" where
  "territory_field locale =
     (case dropWhile (\<lambda>c. c \<noteq> CHR ''_'') locale of
        [] \<Rightarrow> None
      | u # rest \<Rightarrow>
          if CHR ''.'' \<in> set rest then Some (takeWhile (\<lambda>c. c \<noteq> CHR ''.'') rest) else None)"

definition fahrenheit_territories :: "string list" where
  "fahrenheit_territories = [''US'', ''LR'', ''FM'', ''KY'', ''MH'', ''PW'']"

definition spec_uses_fahrenheit :: "string \<Rightarrow> bool" where
  "spec_uses_fahrenheit locale =
     (case territory_field locale of None \<Rightarrow> False | Some t \<Rightarrow> t \<in> set fahrenheit_territories)"

text \<open>
  An argument that sets the unit: a cluster of the short options \<^verbatim>\<open>c\<close> and \<^verbatim>\<open>f\<close>,
  or \<^verbatim>\<open>--\<close> and the name of a long option for a unit, which may be cut short.
\<close>

definition long_unit_names :: "string list" where
  "long_unit_names =
     concat (map (\<lambda>n. tl (prefixes n)) [''celsius'', ''centigrade'', ''fahrenheit''])"

definition unit_flag :: "string \<Rightarrow> bool" where
  "unit_flag a =
     (case a of
        x # y # r \<Rightarrow>
          x = CHR ''-'' \<and>
          (if y = CHR ''-'' then r \<in> set long_unit_names
           else list_all (\<lambda>c. c = CHR ''c'' \<or> c = CHR ''f'') (y # r))
      | _ \<Rightarrow> False)"

text \<open>The name of the measurement locale that \<^verbatim>\<open>main\<close> keeps.\<close>

definition measurement_locale :: "environment \<Rightarrow> string" where
  "measurement_locale env = (case lc_measurement env of None \<Rightarrow> ''C'' | Some s \<Rightarrow> s)"

text \<open>The two diagnostics of \<^verbatim>\<open>main\<close> that quote a token.\<close>

definition invalid_temperature :: "string \<Rightarrow> outcome" where
  "invalid_temperature token =
     Exit [] (''dewpoint: invalid temperature '' @ dquote @ token @ dquote @ ''\<newline>'' @
              kAskForHelp) 1"

definition invalid_humidity :: "string \<Rightarrow> outcome" where
  "invalid_humidity token =
     Exit [] (''dewpoint: invalid humidity '' @ dquote @ token @ dquote @ ''\<newline>'' @
              kAskForHelp) 1"

text \<open>An environment of the United States, for the examples.\<close>

definition example_environment :: environment where
  "example_environment =
     \<lparr>lc_measurement = Some ''en_US.UTF-8'', decimal_point = CHR ''.'',
      posixly_correct = False\<rparr>"

section \<open>The calculator\<close>

lemma DewPoint_finite:
  assumes "0 < H"
  shows "DewPoint (Fin T) (Fin H) =
     (if 243.04 + T = 0 then NaN
      else if magnus_x T H = 17.625 then PInf
      else Fin (magnus_dew_point T H))"
proof -
  have H: "H * 0.01 = H / 100" "\<not> H / 100 < 0" "H / 100 \<noteq> 0"
    using assms by auto
  show ?thesis
  proof (cases "243.04 + T = 0")
    case True
    then have T: "T = - 243.04" by linarith
    show ?thesis using H unfolding T
      by (simp add: DewPoint_def kA_def kB_def fsub_def signed_inf_def Let_def)
  next
    case nz: False
    show ?thesis
    proof (cases "magnus_x T H = 17.625")
      case True
      then show ?thesis using nz H
        by (simp add: DewPoint_def kA_def kB_def fsub_def signed_inf_def Let_def magnus_x_def)
    next
      case False
      then show ?thesis using nz H
        by (simp add: DewPoint_def kA_def kB_def fsub_def signed_inf_def Let_def magnus_x_def
              magnus_dew_point_def)
    qed
  qed
qed






lemma DewPoint_saturated: "T \<noteq> - 243.04 \<Longrightarrow> DewPoint (Fin T) (Fin 100) = Fin T"
  by (simp add: DewPoint_def kA_def kB_def fsub_def signed_inf_def Let_def)
     (auto simp: field_simps)

lemma DewPointFahrenheit_saturated:
  assumes "F \<noteq> - 405.472"
  shows "DewPointFahrenheit (Fin F) (Fin 100) = Fin F"
proof -
  from assms have "5 / 9 * (F - 32) \<noteq> - 243.04" by (simp add: field_simps)
  then have sat: "DewPoint (Fin (5 / 9 * (F - 32))) (Fin 100) = Fin (5 / 9 * (F - 32))"
    by (rule DewPoint_saturated)
  have c: "fmul (fdiv (Fin 5) (Fin 9)) (fsub (Fin F) (Fin 32)) = Fin (5 / 9 * (F - 32))"
    by (simp add: fsub_def)
  show ?thesis
    unfolding DewPointFahrenheit_def c sat by (simp add: field_simps)
qed




section \<open>The locale inspector\<close>

lemma find_char_lower: "- 1 \<le> find_char s c"
  by (induction s) (auto simp: npos_def)

lemma find_char_npos: "(find_char s c = npos) = (c \<notin> set s)"
proof (induction s)
  case Nil
  show ?case by simp
next
  case (Cons x xs)
  have "find_char xs c + 1 \<noteq> - 1" using find_char_lower [of xs c] by linarith
  with Cons show ?case by (auto simp: npos_def)
qed

lemma find_char_nonneg:
  "c \<in> set s \<Longrightarrow> find_char s c = int (length (takeWhile (\<lambda>x. x \<noteq> c) s))"
  by (induction s) (auto simp: find_char_npos)

lemma find_char_append:
  "c \<notin> set pre \<Longrightarrow> find_char (pre @ c # rest) c = int (length pre)"
  by (induction pre) (auto simp: npos_def)

lemma find_char_skip:
  "c \<notin> set pre \<Longrightarrow> c \<in> set rest \<Longrightarrow>
   find_char (pre @ rest) c = int (length pre) + find_char rest c"
  by (induction pre) (auto simp: find_char_npos)

lemma split_at_underscore:
  assumes "CHR ''_'' \<in> set s"
  obtains pre rest where "s = pre @ CHR ''_'' # rest" "CHR ''_'' \<notin> set pre"
    "pre = takeWhile (\<lambda>c. c \<noteq> CHR ''_'') s"
    "dropWhile (\<lambda>c. c \<noteq> CHR ''_'') s = CHR ''_'' # rest"
proof -
  let ?P = "\<lambda>c. c \<noteq> CHR ''_''"
  from assms have "dropWhile ?P s \<noteq> []" by simp
  then obtain x rest where d: "dropWhile ?P s = x # rest" by (cases "dropWhile ?P s") auto
  then have x: "x = CHR ''_''" using hd_dropWhile [of ?P s] by auto
  with d have "s = takeWhile ?P s @ CHR ''_'' # rest"
    using takeWhile_dropWhile_id [of ?P s] by simp
  moreover have "CHR ''_'' \<notin> set (takeWhile ?P s)" by (auto dest: set_takeWhileD)
  ultimately show thesis using that d x by blast
qed

text \<open>
  C3, as the claim states it, fails on a locale name with a \<^verbatim>\<open>.\<close> before its first
  \<^verbatim>\<open>_\<close>: the code looks for the first \<^verbatim>\<open>.\<close> of the whole name, not for the first
  one after the \<^verbatim>\<open>_\<close>.
\<close>

theorem LocaleUsesFahrenheit_counterexample:
  "spec_uses_fahrenheit ''C.UTF-8_US.x'' \<and> \<not> LocaleUsesFahrenheit ''C.UTF-8_US.x''"
  by (simp add: spec_uses_fahrenheit_def territory_field_def fahrenheit_territories_def
        LocaleUsesFahrenheit_def substr_def npos_def)

text \<open>
  C3, amended. \<open>LocaleUsesFahrenheit\<close> returns true iff no \<^verbatim>\<open>.\<close> stands before the
  first \<^verbatim>\<open>_\<close> and the territory field (between the first \<^verbatim>\<open>_\<close> and the first
  \<^verbatim>\<open>.\<close> after it) is exactly one of US, LR, FM, KY, MH, PW; it returns false when a
  delimiter is missing or the first \<^verbatim>\<open>.\<close> does not come after the first \<^verbatim>\<open>_\<close>. So
  \<^verbatim>\<open>en_USA.UTF-8\<close>, \<^verbatim>\<open>C\<close> and \<^verbatim>\<open>en\<close> give false.
\<close>

theorem LocaleUsesFahrenheit_territory:
  "LocaleUsesFahrenheit locale =
     (CHR ''.'' \<notin> set (takeWhile (\<lambda>c. c \<noteq> CHR ''_'') locale) \<and> spec_uses_fahrenheit locale) \<and>
   \<not> LocaleUsesFahrenheit ''en_USA.UTF-8'' \<and> \<not> LocaleUsesFahrenheit ''C'' \<and>
   \<not> LocaleUsesFahrenheit ''en''"
proof (intro conjI)
  show "\<not> LocaleUsesFahrenheit ''en_USA.UTF-8''" "\<not> LocaleUsesFahrenheit ''C''"
    "\<not> LocaleUsesFahrenheit ''en''"
    by (simp_all add: LocaleUsesFahrenheit_def substr_def npos_def)
  show "LocaleUsesFahrenheit locale =
     (CHR ''.'' \<notin> set (takeWhile (\<lambda>c. c \<noteq> CHR ''_'') locale) \<and> spec_uses_fahrenheit locale)"
  proof (cases "CHR ''_'' \<in> set locale")
    case False
    then have "dropWhile (\<lambda>c. c \<noteq> CHR ''_'') locale = []"
      by auto
    then have "territory_field locale = None"
      unfolding territory_field_def by (simp only: list.case)
    with False show ?thesis
      by (simp add: LocaleUsesFahrenheit_def find_char_npos spec_uses_fahrenheit_def)
  next
    case True
    then obtain pre rest where s: "locale = pre @ CHR ''_'' # rest"
      and pre: "CHR ''_'' \<notin> set pre"
      and tw: "pre = takeWhile (\<lambda>c. c \<noteq> CHR ''_'') locale"
      and dw: "dropWhile (\<lambda>c. c \<noteq> CHR ''_'') locale = CHR ''_'' # rest"
      by (rule split_at_underscore)
    have us: "find_char locale CHR ''_'' = int (length pre)"
      unfolding s using pre by (rule find_char_append)
    show ?thesis
    proof (cases "CHR ''.'' \<in> set pre")
      case True
      then have "find_char locale CHR ''.'' = find_char pre CHR ''.''"
        unfolding s by (induction pre) (auto simp: find_char_npos)
      moreover have "find_char pre CHR ''.'' < int (length pre)"
        using True by (induction pre) (auto simp: find_char_npos)
      ultimately show ?thesis using True us tw
        by (simp add: LocaleUsesFahrenheit_def)
    next
      case nodot: False
      show ?thesis
      proof (cases "CHR ''.'' \<in> set rest")
        case False
        with nodot have "CHR ''.'' \<notin> set locale" unfolding s by simp
        then show ?thesis using False dw
          by (simp add: LocaleUsesFahrenheit_def find_char_npos spec_uses_fahrenheit_def
                territory_field_def)
      next
        case True
        let ?t = "takeWhile (\<lambda>c. c \<noteq> CHR ''.'') rest"
        have "find_char locale CHR ''.'' =
                int (length (pre @ [CHR ''_''])) + find_char rest CHR ''.''"
          using find_char_skip [of "CHR ''.''" "pre @ [CHR ''_'']" rest] nodot True
          unfolding s by simp
        then have dot: "find_char locale CHR ''.'' = int (length pre) + 1 + int (length ?t)"
          using True by (simp add: find_char_nonneg)
        have "substr locale (nat (int (length pre) + 1)) (nat (int (length ?t))) =
                take (length ?t) rest"
          unfolding s substr_def by (simp add: nat_add_distrib)
        also have "\<dots> = ?t"
          by (metis append_eq_conv_conj takeWhile_dropWhile_id)
        finally have sub:
          "substr locale (nat (int (length pre) + 1)) (nat (int (length ?t))) = ?t" .
        have "\<not> (find_char locale CHR ''_'' = npos \<or> find_char locale CHR ''.'' = npos \<or>
                  find_char locale CHR ''.'' \<le> find_char locale CHR ''_'')"
          using us dot by (simp add: npos_def)
        then show ?thesis using us dot sub nodot tw True dw
          by (simp add: LocaleUsesFahrenheit_def Let_def spec_uses_fahrenheit_def
                territory_field_def fahrenheit_territories_def)
      qed
    qed
  qed
qed

section \<open>Option parsing\<close>

declare getopt_long.simps [simp del] option_loop.simps [simp del]

lemma getopt_long_skip:
  "nextchar d = [] \<Longrightarrow> pending d = a # rest \<Longrightarrow> nonoption a \<Longrightarrow>
   getopt_long False os lo d = getopt_long False os lo (d\<lparr>skipped := skipped d @ [a], pending := rest\<rparr>)"
  by (subst getopt_long.simps) simp

lemma getopt_long_nonoptions:
  "nextchar d = [] \<Longrightarrow> pending d = args \<Longrightarrow> list_all nonoption args \<Longrightarrow>
   getopt_long False os lo d = (- 1, [], d\<lparr>skipped := skipped d @ args, pending := []\<rparr>)"
proof (induction args arbitrary: d)
  case Nil
  then show ?case by (subst getopt_long.simps) simp
next
  case (Cons a args)
  let ?d = "d\<lparr>skipped := skipped d @ [a], pending := args\<rparr>"
  from Cons.prems have "getopt_long False os lo d = getopt_long False os lo ?d"
    by (simp add: getopt_long_skip)
  also have "\<dots> = (- 1, [], ?d\<lparr>skipped := skipped ?d @ args, pending := []\<rparr>)"
    using Cons.prems by (intro Cons.IH) simp_all
  finally show ?case by simp
qed

lemma getopt_long_posix_stop:
  "nextchar d = [] \<Longrightarrow> list_all nonoption (pending d) \<Longrightarrow>
   getopt_long True os lo d = (- 1, [], d)"
  by (subst getopt_long.simps) (cases "pending d"; simp)

lemma option_loop_end:
  "getopt_long posix ''cf'' long_options d = (- 1, msg, d') \<Longrightarrow>
   option_loop posix ml luf d uf = Inr (uf, d')"
  by (subst option_loop.simps) simp

lemma option_loop_nonoptions:
  assumes "nextchar d = []" "list_all nonoption (pending d)"
  shows "\<exists>d'. option_loop posix ml luf d uf = Inr (uf, d') \<and> argv_of d' = argv_of d \<and>
               optind d' = optind d"
proof (cases posix)
  case True
  with assms show ?thesis
    by (auto simp: getopt_long_posix_stop option_loop_end)
next
  case False
  with assms have "getopt_long posix ''cf'' long_options d =
      (- 1, [], d\<lparr>skipped := skipped d @ pending d, pending := []\<rparr>)"
    by (simp add: getopt_long_nonoptions)
  then have "option_loop posix ml luf d uf =
      Inr (uf, d\<lparr>skipped := skipped d @ pending d, pending := []\<rparr>)"
    by (rule option_loop_end)
  then show ?thesis by (simp add: argv_of_def optind_def)
qed

lemma option_loop_step:
  "getopt_long posix ''cf'' long_options d = (c, msg, d') \<Longrightarrow> c = 99 \<or> c = 102 \<Longrightarrow>
   option_loop posix ml luf d uf = option_loop posix ml luf d' (c = 102)"
  by (subst option_loop.simps) auto

lemma option_loop_cluster:
  "nextchar d = cs \<Longrightarrow> list_all (\<lambda>c. c = CHR ''c'' \<or> c = CHR ''f'') cs \<Longrightarrow>
   \<exists>uf'. option_loop posix ml luf d uf = option_loop posix ml luf (d\<lparr>nextchar := []\<rparr>) uf'"
proof (induction cs arbitrary: d uf)
  case Nil
  then have "d\<lparr>nextchar := []\<rparr> = d" by simp
  then show ?case by auto
next
  case (Cons c cs)
  let ?d = "d\<lparr>nextchar := cs\<rparr>"
  from Cons.prems have g: "getopt_long posix ''cf'' long_options d = (of_char c, [], ?d)"
    by (subst getopt_long.simps) (auto simp: short_option_def)
  from Cons.prems have "of_char c = (99::int) \<or> of_char c = (102::int)" by auto
  with g have "option_loop posix ml luf d uf = option_loop posix ml luf ?d (of_char c = (102::int))"
    by (rule option_loop_step)
  moreover from Cons.prems
  obtain uf' where "option_loop posix ml luf ?d (of_char c = (102::int)) =
      option_loop posix ml luf (?d\<lparr>nextchar := []\<rparr>) uf'"
    using Cons.IH [where d = ?d and uf = "of_char c = (102::int)"] by auto
  ultimately show ?case by auto
qed

lemma long_unit_names_val:
  "r \<in> set long_unit_names \<Longrightarrow>
   long_option long_options r d = (99, [], d) \<or> long_option long_options r d = (102, [], d)"
  by (auto simp: long_unit_names_def long_option_def long_options_def kHelpLongOption_def)

lemma option_loop_flag:
  assumes "nextchar d = []" "pending d = a # rest" "unit_flag a"
  shows "\<exists>uf'. option_loop posix ml luf d uf =
           option_loop posix ml luf (d\<lparr>scanned := scanned d @ [a], pending := rest\<rparr>) uf'"
proof -
  from assms(3) obtain y r where a: "a = CHR ''-'' # y # r"
    by (cases a; cases "tl a") (auto simp: unit_flag_def)
  let ?d = "d\<lparr>scanned := scanned d @ [a], pending := rest\<rparr>"
  show ?thesis
  proof (cases "y = CHR ''-''")
    case True
    with assms(3) a have r: "r \<in> set long_unit_names" by (simp add: unit_flag_def)
    then have "r \<noteq> []" by (auto simp: long_unit_names_def)
    with True a assms have "getopt_long posix ''cf'' long_options d = long_option long_options r ?d"
      by (subst getopt_long.simps) (simp add: nonoption_def)
    with long_unit_names_val [OF r, of ?d]
    have "getopt_long posix ''cf'' long_options d = (99, [], ?d) \<or>
          getopt_long posix ''cf'' long_options d = (102, [], ?d)" by simp
    then show ?thesis using option_loop_step by blast
  next
    case False
    let ?e = "d\<lparr>scanned := scanned d @ [a], pending := rest, nextchar := r\<rparr>"
    from False assms(3) a have y: "y = CHR ''c'' \<or> y = CHR ''f''"
      and cs: "list_all (\<lambda>c. c = CHR ''c'' \<or> c = CHR ''f'') r"
      by (simp_all add: unit_flag_def)
    from False a assms y have g: "getopt_long posix ''cf'' long_options d = (of_char y, [], ?e)"
      by (subst getopt_long.simps) (auto simp: nonoption_def short_option_def)
    from y have "of_char y = (99::int) \<or> of_char y = (102::int)" by auto
    with g have "option_loop posix ml luf d uf = option_loop posix ml luf ?e (of_char y = (102::int))"
      by (rule option_loop_step)
    moreover obtain uf' where "option_loop posix ml luf ?e (of_char y = (102::int)) =
        option_loop posix ml luf (?e\<lparr>nextchar := []\<rparr>) uf'"
      using option_loop_cluster [where d = ?e and cs = r and posix = posix and ml = ml
          and luf = luf and uf = "of_char y = (102::int)"] cs
      by auto
    moreover have "?e\<lparr>nextchar := []\<rparr> = ?d" using assms(1) by simp
    ultimately show ?thesis by auto
  qed
qed

lemma option_loop_help:
  "nextchar d = [] \<Longrightarrow> pending d = ''--help'' # post \<Longrightarrow>
   option_loop posix ml luf d uf = Inl (Exit (help_text ml luf) [] 0)"
  apply (subst option_loop.simps)
  apply (subst getopt_long.simps)
  apply (simp add: nonoption_def long_option_def long_options_def kHelpLongOption_def)
  done

lemma option_loop_cong:
  "getopt_long posix ''cf'' long_options d = getopt_long posix ''cf'' long_options e \<Longrightarrow>
   option_loop posix ml luf d uf = option_loop posix ml luf e uf"
  by (simp add: option_loop.simps [of _ _ _ d] option_loop.simps [of _ _ _ e])

lemma option_loop_reaches_help:
  "nextchar d = [] \<Longrightarrow> pending d = pre @ ''--help'' # post \<Longrightarrow>
   list_all (\<lambda>a. unit_flag a \<or> (nonoption a \<and> \<not> posix)) pre \<Longrightarrow>
   option_loop posix ml luf d uf = Inl (Exit (help_text ml luf) [] 0)"
proof (induction pre arbitrary: d uf)
  case Nil
  then show ?case by (simp add: option_loop_help)
next
  case (Cons a pre)
  show ?case
  proof (cases "unit_flag a")
    case True
    let ?d = "d\<lparr>scanned := scanned d @ [a], pending := pre @ ''--help'' # post\<rparr>"
    from True Cons.prems obtain uf' where
      "option_loop posix ml luf d uf = option_loop posix ml luf ?d uf'"
      using option_loop_flag [where d = d and a = a and rest = "pre @ ''--help'' # post"
          and posix = posix and ml = ml and luf = luf and uf = uf]
      by auto
    moreover have "option_loop posix ml luf ?d uf' = Inl (Exit (help_text ml luf) [] 0)"
      using Cons.prems by (intro Cons.IH) simp_all
    ultimately show ?thesis by simp
  next
    case False
    with Cons.prems have a: "nonoption a" and np: "\<not> posix" by simp_all
    let ?d = "d\<lparr>skipped := skipped d @ [a], pending := pre @ ''--help'' # post\<rparr>"
    from a np Cons.prems have "getopt_long posix ''cf'' long_options d =
        getopt_long posix ''cf'' long_options ?d"
      by (simp add: getopt_long_skip)
    then have "option_loop posix ml luf d uf = option_loop posix ml luf ?d uf"
      by (rule option_loop_cong)
    moreover have "option_loop posix ml luf ?d uf = Inl (Exit (help_text ml luf) [] 0)"
      using Cons.prems by (intro Cons.IH) simp_all
    ultimately show ?thesis by simp
  qed
qed

lemma option_loop_flags:
  "skipped d = [] \<Longrightarrow> nextchar d = [] \<Longrightarrow> pending d = flags @ args \<Longrightarrow>
   list_all unit_flag flags \<Longrightarrow> list_all nonoption args \<Longrightarrow>
   \<exists>uf' d'. option_loop posix ml luf d uf = Inr (uf', d') \<and> argv_of d' = argv_of d \<and>
             optind d' = optind d + length flags \<and> (flags = [] \<longrightarrow> uf' = uf)"
proof (induction flags arbitrary: d uf)
  case Nil
  then show ?case
    using option_loop_nonoptions [where d = d and posix = posix and ml = ml and luf = luf
        and uf = uf]
    by auto
next
  case (Cons a flags)
  let ?d = "d\<lparr>scanned := scanned d @ [a], pending := flags @ args\<rparr>"
  from Cons.prems obtain uf1 where
    "option_loop posix ml luf d uf = option_loop posix ml luf ?d uf1"
    using option_loop_flag [where d = d and a = a and rest = "flags @ args"
        and posix = posix and ml = ml and luf = luf and uf = uf]
    by auto
  moreover from Cons.prems obtain uf' d' where
    "option_loop posix ml luf ?d uf1 = Inr (uf', d')" "argv_of d' = argv_of ?d"
    "optind d' = optind ?d + length flags"
    using Cons.IH [where d = ?d and uf = uf1] by auto
  moreover have "argv_of ?d = argv_of d" "optind ?d = optind d + 1"
    using Cons.prems by (simp_all add: argv_of_def optind_def)
  ultimately show ?case by auto
qed

lemma magnitude_None:
  assumes "\<not> isdigit y" "y \<notin> set ''iInN''" "case r of [] \<Rightarrow> True | z # u \<Rightarrow> \<not> isdigit z"
  shows "magnitude dp (y # r) = None"
proof -
  from assms(1) have y0: "y \<noteq> CHR ''0''" by (auto simp: isdigit_def)
  have h: "hex_float dp (y # r) = None"
    using y0 by (simp add: hex_float_def split: list.splits)
  have tw: "takeWhile isdigit r = []" using assms(3) by (cases r) simp_all
  have m: "mantissa isdigit dp (y # r) = None"
    using assms(1) tw by (simp add: mantissa_def)
  have i: "infinity (y # r) = None" using assms(2) by (simp add: infinity_def)
  have n: "not_a_number (y # r) = None" using assms(2) by (simp add: not_a_number_def)
  show ?thesis by (simp add: magnitude_def h decimal_float_def m i n)
qed

lemma ReadFloat_minus:
  assumes "magnitude dp (y # r) = None"
  shows "ReadFloat dp (CHR ''-'' # y # r) = None"
  using assms by (simp add: ReadFloat_def strtof_def isspace_def sign_part_def)

lemma unit_flag_not_float: "unit_flag a \<Longrightarrow> ReadFloat dp a = None"
proof -
  assume u: "unit_flag a"
  then obtain y r where a: "a = CHR ''-'' # y # r"
    by (cases a; cases "tl a") (auto simp: unit_flag_def)
  have "magnitude dp (y # r) = None"
  proof (cases "y = CHR ''-''")
    case True
    with u a have "r \<in> set long_unit_names" by (simp add: unit_flag_def)
    then have "case r of [] \<Rightarrow> True | z # u \<Rightarrow> \<not> isdigit z"
      by (auto simp: long_unit_names_def isdigit_def)
    with True show ?thesis by (intro magnitude_None) (simp_all add: isdigit_def)
  next
    case False
    with u a have y: "y = CHR ''c'' \<or> y = CHR ''f''"
      and r: "list_all (\<lambda>c. c = CHR ''c'' \<or> c = CHR ''f'') r"
      by (simp_all add: unit_flag_def)
    from r have "case r of [] \<Rightarrow> True | z # u \<Rightarrow> \<not> isdigit z"
      by (cases r) (auto simp: isdigit_def)
    with y show ?thesis by (intro magnitude_None) (auto simp: isdigit_def)
  qed
  with a show ?thesis by (simp add: ReadFloat_minus)
qed


section \<open>The arguments\<close>

lemma read_arguments_positional:
  assumes "list_all unit_flag flags" "nonoption t" "nonoption h"
  shows "\<exists>uf. (flags = [] \<longrightarrow> uf = LocaleUsesFahrenheit (measurement_locale env)) \<and>
     read_arguments env (p # flags @ [t, h]) =
       (if ReadFloat (decimal_point env) ((flags @ [t, h]) ! 0) = None
        then Inl (invalid_temperature ((flags @ [t, h]) ! 0))
        else if ReadFloat (decimal_point env) ((flags @ [t, h]) ! 1) = None \<or>
                fle (the (ReadFloat (decimal_point env) ((flags @ [t, h]) ! 1))) (Fin 0)
        then Inl (invalid_humidity ((flags @ [t, h]) ! 0))
        else Inr (uf, the (ReadFloat (decimal_point env) ((flags @ [t, h]) ! 0)),
                  the (ReadFloat (decimal_point env) ((flags @ [t, h]) ! 1))))"
proof -
  let ?d = "getopt_init (p # flags @ [t, h])"
  let ?ml = "measurement_locale env"
  let ?luf = "LocaleUsesFahrenheit ?ml"
  have "skipped ?d = []" "nextchar ?d = []" "pending ?d = flags @ [t, h]"
    by (simp_all add: getopt_init_def)
  moreover have "list_all nonoption [t, h]" using assms by simp
  ultimately obtain uf d' where
    loop: "option_loop (posixly_correct env) ?ml ?luf ?d ?luf = Inr (uf, d')"
    and av: "argv_of d' = argv_of ?d" and oi: "optind d' = optind ?d + length flags"
    and uf: "flags = [] \<longrightarrow> uf = ?luf"
    using assms(1) option_loop_flags [where d = ?d and flags = flags and args = "[t, h]"
        and posix = "posixly_correct env" and ml = ?ml and luf = ?luf and uf = ?luf]
    by blast
  have av': "argv_of d' = p # flags @ [t, h]"
    using av by (simp add: argv_of_def getopt_init_def)
  have oi': "int (optind d') = int (length (p # flags @ [t, h])) - 2"
    using oi by (simp add: optind_def getopt_init_def)
  have "read_arguments env (p # flags @ [t, h]) =
       (if ReadFloat (decimal_point env) ((flags @ [t, h]) ! 0) = None
        then Inl (invalid_temperature ((flags @ [t, h]) ! 0))
        else if ReadFloat (decimal_point env) ((flags @ [t, h]) ! 1) = None \<or>
                fle (the (ReadFloat (decimal_point env) ((flags @ [t, h]) ! 1))) (Fin 0)
        then Inl (invalid_humidity ((flags @ [t, h]) ! 0))
        else Inr (uf, the (ReadFloat (decimal_point env) ((flags @ [t, h]) ! 0)),
                  the (ReadFloat (decimal_point env) ((flags @ [t, h]) ! 1))))"
    unfolding read_arguments_def measurement_locale_def [symmetric] Let_def loop
    using oi' av'
    by (simp add: invalid_temperature_def invalid_humidity_def)
  with uf show ?thesis by blast
qed

lemma read_arguments_plain:
  assumes "nonoption t" "nonoption h"
  shows "read_arguments env [p, t, h] =
       (if ReadFloat (decimal_point env) t = None then Inl (invalid_temperature t)
        else if ReadFloat (decimal_point env) h = None \<or>
                fle (the (ReadFloat (decimal_point env) h)) (Fin 0)
        then Inl (invalid_humidity t)
        else Inr (LocaleUsesFahrenheit (measurement_locale env),
                  the (ReadFloat (decimal_point env) t), the (ReadFloat (decimal_point env) h)))"
  using read_arguments_positional [where flags = "[]" and t = t and h = h and env = env and p = p]
    assms
  by auto

lemma read_arguments_flagged:
  assumes "flags \<noteq> []" "list_all unit_flag flags" "nonoption t" "nonoption h"
  shows "read_arguments env (p # flags @ [t, h]) = Inl (invalid_temperature (hd flags))"
proof -
  from assms(1) obtain a rest where f: "flags = a # rest" by (cases flags) auto
  with assms(2) have "ReadFloat (decimal_point env) a = None"
    by (simp add: unit_flag_not_float)
  with f show ?thesis
    using read_arguments_positional [OF assms(2-4), of env p] by auto
qed

lemmas float_defs = ReadFloat_def strtof_def magnitude_def hex_float_def decimal_float_def
  mantissa_def exponent_part_def sign_part_def infinity_def not_a_number_def isspace_def
  isdigit_def isxdigit_def isalpha_def number_of_def digit_value_def scale_def Let_def

section \<open>The program\<close>

text \<open>
  C1. The code breaks the claim at \<^verbatim>\<open>dewpoint -c 20 50\<close>. After the options,
  \<^verbatim>\<open>main\<close> tests \<^verbatim>\<open>optind\<close> but then reads \<^verbatim>\<open>argv[1]\<close> and \<^verbatim>\<open>argv[2]\<close>, not
  \<^verbatim>\<open>argv[optind]\<close> and \<^verbatim>\<open>argv[optind + 1]\<close>: the temperature token it reads is
  \<^verbatim>\<open>-c\<close>, and the run ends with the diagnostic of an invalid temperature and status 1,
  where the claim has the output 9 and status 0.
\<close>

theorem main_celsius_flag:
  "main env [''dewpoint'', ''-c'', ''20'', ''50''] =
     Exit [] (''dewpoint: invalid temperature '' @ dquote @ ''-c'' @ dquote @ ''\<newline>'' @
              kAskForHelp) 1"
  using read_arguments_flagged [where flags = "[''-c'']" and t = "''20''" and h = "''50''"
      and env = env and p = "''dewpoint''"]
  by (simp add: main_def unit_flag_def nonoption_def invalid_temperature_def)

text \<open>
  C2. The code breaks the claim at \<^verbatim>\<open>dewpoint 20 0\<close>: the diagnostic of an invalid
  humidity quotes \<^verbatim>\<open>argv[1]\<close>, the temperature token \<^verbatim>\<open>20\<close>, not the humidity
  token \<^verbatim>\<open>0\<close>.
\<close>

theorem main_humidity_message:
  "main env [''dewpoint'', ''20'', ''0''] =
     Exit [] (''dewpoint: invalid humidity '' @ dquote @ ''20'' @ dquote @ ''\<newline>'' @
              kAskForHelp) 1"
  using read_arguments_plain [where t = "''20''" and h = "''0''" and env = env
      and p = "''dewpoint''"]
  by (simp add: main_def nonoption_def float_defs invalid_humidity_def)




text \<open>
  C8. The code breaks the claim at the empty token: \<^verbatim>\<open>strtof\<close> converts nothing and
  leaves \<^verbatim>\<open>end\<close> at the start of the string, where \<^verbatim>\<open>*end\<close> is NUL, so
  \<open>ReadFloat\<close> returns 0 instead of \<^verbatim>\<open>nullopt\<close>; \<^verbatim>\<open>dewpoint "" 100\<close> prints 0.
\<close>

theorem ReadFloat_empty_token:
  "ReadFloat dp [] = Some (Fin 0) \<and>
   main env [''dewpoint'', [], ''100''] = Exit ''0\<newline>'' [] 0"
proof
  show e: "ReadFloat dp [] = Some (Fin 0)" by (simp add: float_defs)
  have h: "ReadFloat (decimal_point env) ''100'' = Some (Fin 100)" by (simp add: float_defs)
  have "ReadFloat (decimal_point env) [] = Some (Fin 0)" by (simp add: float_defs)
  with h have "read_arguments env [''dewpoint'', [], ''100''] =
      Inr (LocaleUsesFahrenheit (measurement_locale env), Fin 0, Fin 100)"
    using read_arguments_plain [where t = "[]" and h = "''100''" and env = env
        and p = "''dewpoint''"]
    by (simp add: nonoption_def)
  moreover have "DewPoint (Fin 0) (Fin 100) = Fin 0" by (simp add: DewPoint_saturated)
  moreover have "DewPointFahrenheit (Fin 0) (Fin 100) = Fin 0"
    by (simp add: DewPointFahrenheit_saturated)
  ultimately show "main env [''dewpoint'', [], ''100''] = Exit ''0\<newline>'' [] 0"
    by (simp add: main_def rint_def show_int_def Let_def)
qed

text \<open>
  C9, as the claim states it, fails when an option that \<^verbatim>\<open>getopt_long\<close> rejects stands
  before \<^verbatim>\<open>--help\<close>: the options are handled in their order, and \<^verbatim>\<open>dewpoint -x --help\<close>
  ends with status 1 at \<^verbatim>\<open>-x\<close>.
\<close>

theorem help_after_bad_option:
  "main example_environment [''dewpoint'', ''-x'', ''--help''] =
     Exit [] (''dewpoint: invalid option -- '' @ quote @ ''x'' @ quote @ ''\<newline>'' @ kAskForHelp) 1"
  by (simp add: main_def read_arguments_def example_environment_def getopt_init_def
        option_loop.simps [of _ _ _ "\<lparr>program = _, scanned = _, skipped = _, nextchar = _, pending = _\<rparr>"]
        getopt_long.simps [of _ _ _ "\<lparr>program = _, scanned = _, skipped = _, nextchar = _, pending = _\<rparr>"]
        nonoption_def short_option_def Let_def kHelpLongOption_def)

text \<open>
  C9, amended. When every argument before \<^verbatim>\<open>--help\<close> is a unit flag or, unless
  \<^verbatim>\<open>POSIXLY_CORRECT\<close> is set, a non-option, the program prints the usage block and the
  line about the measurement locale and its default unit to standard output and exits
  with status 0, whatever follows \<^verbatim>\<open>--help\<close>, and computes nothing.
\<close>

theorem help_reached:
  assumes "list_all (\<lambda>a. unit_flag a \<or> (nonoption a \<and> \<not> posixly_correct env)) pre"
  shows "main env (p # pre @ ''--help'' # post) =
     Exit (help_text (measurement_locale env) (LocaleUsesFahrenheit (measurement_locale env))) [] 0"
proof -
  let ?d = "getopt_init (p # pre @ ''--help'' # post)"
  have "nextchar ?d = []" "pending ?d = pre @ ''--help'' # post"
    by (simp_all add: getopt_init_def)
  then have "option_loop (posixly_correct env) (measurement_locale env)
      (LocaleUsesFahrenheit (measurement_locale env)) ?d
      (LocaleUsesFahrenheit (measurement_locale env)) =
      Inl (Exit (help_text (measurement_locale env)
                   (LocaleUsesFahrenheit (measurement_locale env))) [] 0)"
    using assms by (rule option_loop_reaches_help)
  then show ?thesis
    unfolding main_def read_arguments_def measurement_locale_def [symmetric] Let_def
    by simp
qed

theorem help_reached_witness:
  "list_all (\<lambda>a. unit_flag a \<or> (nonoption a \<and> \<not> posixly_correct example_environment))
     [''-f'', ''20''] \<and>
   main example_environment [''dewpoint'', ''-f'', ''20'', ''--help'', ''50''] =
     Exit (help_text ''en_US.UTF-8'' True) [] 0"
proof -
  have a: "list_all (\<lambda>a. unit_flag a \<or> (nonoption a \<and> \<not> posixly_correct example_environment))
     [''-f'', ''20'']"
    by (simp add: unit_flag_def nonoption_def example_environment_def)
  have "measurement_locale example_environment = ''en_US.UTF-8''"
    by (simp add: measurement_locale_def example_environment_def)
  moreover have "LocaleUsesFahrenheit ''en_US.UTF-8''"
    by (simp add: LocaleUsesFahrenheit_def substr_def npos_def)
  ultimately show ?thesis
    using a help_reached [OF a, of "''dewpoint''" "[''50'']"] by simp
qed




section \<open>The run on 20 and 50\<close>

text \<open>
  Without a flag the two tokens are read as the claim C1 has it: at 20 degrees Celsius
  and 50 percent the program prints 9, and at 68 degrees Fahrenheit it prints 49.
\<close>

lemma ln2_lower: "0.6775 < ln (2::real)"
proof -
  let ?y = "0.6775 / 16 :: real"
  have "exp ?y \<le> 1 + ?y + ?y\<^sup>2" by (rule exp_bound) simp_all
  then have "exp ?y ^ 16 \<le> (1 + ?y + ?y\<^sup>2) ^ 16"
    by (intro power_mono) simp_all
  also have "\<dots> < 2" by (simp add: power2_eq_square power_divide)
  finally have "exp (of_nat 16 * ?y) < 2" by (simp only: exp_of_nat_mult)
  then have "exp 0.6775 < exp (ln (2::real))" by simp
  then show ?thesis by (simp only: exp_less_cancel_iff)
qed

lemma ln2_upper: "ln (2::real) < 0.6995"
proof -
  let ?y = "0.6995 / 64 :: real"
  have "1 + ?y \<le> exp ?y" by (rule exp_ge_add_one_self)
  then have "(1 + ?y) ^ 64 \<le> exp ?y ^ 64"
    by (intro power_mono) simp_all
  moreover have "2 < (1 + ?y) ^ 64" by (simp add: power_divide)
  ultimately have "2 < exp (of_nat 64 * ?y)" by (simp only: exp_of_nat_mult)
  then have "exp (ln (2::real)) < exp 0.6995" by simp
  then show ?thesis by (simp only: exp_less_cancel_iff)
qed

lemma rint_nearest:
  assumes "of_int n - 1 / 2 < x" "x < of_int n + 1 / 2"
  shows "rint x = n"
proof (cases "of_int n \<le> x")
  case True
  with assms have "\<lfloor>x\<rfloor> = n" by linarith
  with assms show ?thesis by (simp add: rint_def)
next
  case False
  with assms have f: "\<lfloor>x\<rfloor> = n - 1" by linarith
  with assms False show ?thesis by (simp add: rint_def)
qed


lemma magnus_x_20_50: "0.6406 < magnus_x 20 50" "magnus_x 20 50 < 0.6627"
proof -
  have "ln (50 / 100 :: real) = - ln 2"
    using ln_inverse [of "2::real"] by (simp add: inverse_eq_divide)
  then have x: "magnus_x 20 50 = 17.625 * 20 / (243.04 + 20) - ln 2"
    by (simp add: magnus_x_def)
  show "0.6406 < magnus_x 20 50" unfolding x using ln2_upper by simp
  show "magnus_x 20 50 < 0.6627" unfolding x using ln2_lower by simp
qed

lemma magnus_dew_point_20_50:
  "55 / 6 < magnus_dew_point 20 50" "magnus_dew_point 20 50 < 19 / 2"
proof -
  let ?x = "magnus_x 20 50"
  have pos: "0 < 17.625 - ?x" using magnus_x_20_50 by simp
  have "55 / 6 * (17.625 - ?x) < 243.04 * ?x" using magnus_x_20_50 by simp
  then show "55 / 6 < magnus_dew_point 20 50"
    unfolding magnus_dew_point_def using pos by (simp only: pos_less_divide_eq)
  have "243.04 * ?x < 19 / 2 * (17.625 - ?x)" using magnus_x_20_50 by simp
  then show "magnus_dew_point 20 50 < 19 / 2"
    unfolding magnus_dew_point_def using pos by (simp only: pos_divide_less_eq)
qed

lemma DewPoint_20_50: "DewPoint (Fin 20) (Fin 50) = Fin (magnus_dew_point 20 50)"
  using DewPoint_finite [of 50 20] magnus_x_20_50 by simp

lemma rintf_DewPoint_20_50: "rintf (DewPoint (Fin 20) (Fin 50)) = Fin 9"
proof -
  have "rint (magnus_dew_point 20 50) = 9"
    using magnus_dew_point_20_50 by (intro rint_nearest) simp_all
  then show ?thesis by (simp add: DewPoint_20_50)
qed

lemma rintf_DewPointFahrenheit_68_50: "rintf (DewPointFahrenheit (Fin 68) (Fin 50)) = Fin 49"
proof -
  have "DewPointFahrenheit (Fin 68) (Fin 50) = Fin (9 / 5 * magnus_dew_point 20 50 + 32)"
    by (simp add: DewPointFahrenheit_def fsub_def DewPoint_20_50)
  moreover have "rint (9 / 5 * magnus_dew_point 20 50 + 32) = 49"
    using magnus_dew_point_20_50 by (intro rint_nearest) simp_all
  ultimately show ?thesis by simp
qed


lemma main_20_50:
  assumes "\<not> LocaleUsesFahrenheit (measurement_locale env)"
  shows "main env [''dewpoint'', ''20'', ''50''] = Exit ''9\<newline>'' [] 0"
proof -
  have "read_arguments env [''dewpoint'', ''20'', ''50''] = Inr (False, Fin 20, Fin 50)"
    using read_arguments_plain [where t = "''20''" and h = "''50''" and env = env
        and p = "''dewpoint''"] assms
    by (simp add: nonoption_def float_defs)
  then show ?thesis
    by (simp add: main_def rintf_DewPoint_20_50 show_int_def)
qed

lemma main_68_50:
  assumes "LocaleUsesFahrenheit (measurement_locale env)"
  shows "main env [''dewpoint'', ''68'', ''50''] = Exit ''49\<newline>'' [] 0"
proof -
  have "read_arguments env [''dewpoint'', ''68'', ''50''] = Inr (True, Fin 68, Fin 50)"
    using read_arguments_plain [where t = "''68''" and h = "''50''" and env = env
        and p = "''dewpoint''"] assms
    by (simp add: nonoption_def float_defs)
  then show ?thesis
    by (simp add: main_def rintf_DewPointFahrenheit_68_50 show_int_def)
qed

end
